theory Spec2Isabelle
  imports Main
begin

section \<open>JavaScript values used by the authentication core\<close>

text \<open>
  A property that may be \<open>undefined\<close> is an \<open>option\<close>. JavaScript's truthiness
  test on such a string (\<open>!username\<close>, \<open>a || b\<close>, \<open>if (secret)\<close>) is false for
  \<open>undefined\<close> and for the empty string.
\<close>

definition truthy :: "string option \<Rightarrow> bool" where
  "truthy v = (case v of None \<Rightarrow> False | Some s \<Rightarrow> s \<noteq> [])"

text \<open>\<open>a || b\<close> on two possibly undefined strings: \<open>a\<close> when it is truthy, else \<open>b\<close>.\<close>

definition js_or :: "string option \<Rightarrow> string option \<Rightarrow> string option" where
  "js_or a b = (if truthy a then a else b)"

text \<open>\<open>xs.join(sep)\<close> on an array of strings.\<close>

fun join :: "string \<Rightarrow> string list \<Rightarrow> string" where
  "join sep [] = []"
| "join sep [x] = x"
| "join sep (x # y # ys) = x @ sep @ join sep (y # ys)"

section \<open>Token claims\<close>

text \<open>
  The claims object of a token, with the properties the code writes or reads:
  \<open>userId\<close>, \<open>username\<close>, \<open>email\<close>, \<open>role\<close>, \<open>iat\<close>, \<open>exp\<close> (written by
  \<open>generateJWT\<close>), \<open>sub\<close>, \<open>cognito:username\<close> and \<open>cognito:groups\<close> (read by
  \<open>verifyToken\<close> and \<open>authorizeGroup\<close>). A property that is absent is \<open>None\<close>.
  Times are JWT NumericDates: seconds since the epoch.
\<close>

record claims =
  userId :: "string option"
  username :: "string option"
  email :: "string option"
  role :: "string option"
  sub :: "string option"
  cognito_username :: "string option"
  cognito_groups :: "string list option"
  iat_claim :: "int option"
  exp_claim :: "int option"

section \<open>Local group membership store (services/cognitoGroups.js)\<close>

text \<open>
  \<open>userGroupMembership\<close> is a module-level \<open>Map\<close> from username to the array of the
  user's group names. The functions below take the map and return the updated one.
\<close>

type_synonym membership = "string \<rightharpoonup> string list"

definition initialMembership :: membership where
  "initialMembership = [''admin'' \<mapsto> [''Admin''], ''user'' \<mapsto> [''User'']]"

text \<open>\<open>userGroupMembership.get(username) || []\<close>: an array is always truthy.\<close>

definition getUserGroups :: "membership \<Rightarrow> string \<Rightarrow> string list" where
  "getUserGroups m uname = (case m uname of None \<Rightarrow> [] | Some gs \<Rightarrow> gs)"

definition isUserInGroup :: "membership \<Rightarrow> string \<Rightarrow> string \<Rightarrow> bool" where
  "isUserInGroup m uname groupName = (groupName \<in> set (getUserGroups m uname))"

definition addUserToGroup :: "membership \<Rightarrow> string \<Rightarrow> string \<Rightarrow> membership" where
  "addUserToGroup m uname groupName =
     (let userGroups = getUserGroups m uname
      in if groupName \<notin> set userGroups
         then m(uname \<mapsto> userGroups @ [groupName])
         else m)"

definition removeUserFromGroup :: "membership \<Rightarrow> string \<Rightarrow> string \<Rightarrow> membership" where
  "removeUserFromGroup m uname groupName =
     (let userGroups = getUserGroups m uname
      in m(uname \<mapsto> filter (\<lambda>group. group \<noteq> groupName) userGroups))"

text \<open>
  The stores the running module can hold: the initial table, changed only through
  \<open>addUserToGroup\<close> and \<open>removeUserFromGroup\<close> (the map is not exported).
\<close>

inductive reachable :: "membership \<Rightarrow> bool" where
  initial: "reachable initialMembership"
| added: "reachable m \<Longrightarrow> reachable (addUserToGroup m uname groupName)"
| removed: "reachable m \<Longrightarrow> reachable (removeUserFromGroup m uname groupName)"

subsection \<open>The requireGroup middleware\<close>

text \<open>
  A middleware either answers the request (status and JSON body) or calls \<open>next()\<close>
  with the request's \<open>user\<close> object.
\<close>

datatype body = ErrorBody string | ErrorWithGroups string "string list"

datatype 'a outcome = Respond nat body | Next 'a

text \<open>\<open>allowedGroups\<close> is a string or an array of strings.\<close>

datatype allowed = One string | Many "string list"

definition groupsArray :: "allowed \<Rightarrow> string list" where
  "groupsArray allowedGroups = (case allowedGroups of One g \<Rightarrow> [g] | Many gs \<Rightarrow> gs)"

text \<open>
  \<open>requireGroup(allowedGroups)(req, res, next)\<close>. \<open>req.user\<close> may be undefined
  (\<open>req.user?.username\<close>). On success the user's groups are attached to the request
  as \<open>req.user.groups\<close>: the continuation receives the claims and the groups.
\<close>

definition requireGroup ::
  "allowed \<Rightarrow> membership \<Rightarrow> claims option \<Rightarrow> (claims \<times> string list) outcome" where
  "requireGroup allowedGroups m req_user =
     (let uname = (case req_user of None \<Rightarrow> None | Some u \<Rightarrow> username u)
      in if \<not> truthy uname then Respond 401 (ErrorBody ''Authentication required'')
         else
           let userGroups = getUserGroups m (the uname);
               hasRequiredGroup = list_ex (\<lambda>group. group \<in> set userGroups) (groupsArray allowedGroups)
           in if \<not> hasRequiredGroup
              then Respond 403
                     (ErrorWithGroups
                        (''Insufficient permissions. Required groups: ''
                           @ join '', '' (groupsArray allowedGroups))
                        userGroups)
              else Next (the req_user, userGroups))"

section \<open>The jsonwebtoken library, symbolically\<close>

text \<open>
  The code signs, verifies and decodes tokens through the \<open>jsonwebtoken\<close> package, a
  dependency that is not part of the repository. Its three calls are modelled
  symbolically: a signature records the key and the payload it was computed over (an
  HMAC that cannot be forged and has no collisions), and a token is either a string
  that does not parse as a JWT or a payload with a signature. The clock is the number
  of milliseconds returned by \<open>Date.now()\<close>.
\<close>

datatype jws_signature = HS256 string claims

datatype token = NotAJwt string | Jwt claims jws_signature

datatype jwt_error = JsonWebTokenError string | TokenExpiredError

definition now_seconds :: "int \<Rightarrow> int" where
  "now_seconds clock_ms = clock_ms div 1000"

definition jwt_sign :: "claims \<Rightarrow> string \<Rightarrow> token" where
  "jwt_sign payload secret = Jwt payload (HS256 secret payload)"

text \<open>\<open>jwt.decode(token)\<close> returns the payload without checking anything, or \<open>null\<close>.\<close>

definition jwt_decode :: "token \<Rightarrow> claims option" where
  "jwt_decode t = (case t of NotAJwt _ \<Rightarrow> None | Jwt payload _ \<Rightarrow> Some payload)"

text \<open>
  \<open>jwt.verify(token, secret, callback)\<close>: the structure, then the signature, then
  the expiry, which the library tests as \<open>clockTimestamp >= payload.exp\<close>.
\<close>

definition jwt_verify :: "token \<Rightarrow> string \<Rightarrow> int \<Rightarrow> jwt_error + claims" where
  "jwt_verify t secret clock_ms =
     (case t of
        NotAJwt _ \<Rightarrow> Inl (JsonWebTokenError ''jwt malformed'')
      | Jwt payload sg \<Rightarrow>
          if sg \<noteq> HS256 secret payload then Inl (JsonWebTokenError ''invalid signature'')
          else (case exp_claim payload of
                  None \<Rightarrow> Inr payload
                | Some e \<Rightarrow> if now_seconds clock_ms \<ge> e then Inl TokenExpiredError
                            else Inr payload))"

section \<open>Token issuer and verifier (services/cognito-service.js)\<close>

text \<open>\<open>process.env.JWT_SECRET || 'your-secret-key'\<close>\<close>

definition JWT_SECRET :: "string option \<Rightarrow> string" where
  "JWT_SECRET env = the (js_or env (Some ''your-secret-key''))"

text \<open>
  The object passed to \<open>generateJWT\<close>. The function destructures \<open>userId\<close>,
  \<open>username\<close>, \<open>email\<close> and \<open>role\<close>; its callers in the login and MFA-challenge
  routes also pass \<open>'cognito:groups'\<close>.
\<close>

record userData =
  ud_userId :: "string option"
  ud_username :: "string option"
  ud_email :: "string option"
  ud_role :: "string option"
  ud_cognito_groups :: "string list option"

text \<open>
  \<open>generateJWT(userData)\<close>. \<open>role\<close> defaults to \<open>'user'\<close> when undefined. The two
  readings of \<open>Date.now()\<close> for \<open>iat\<close> and \<open>exp\<close> are taken as one.
\<close>

definition generateJWT :: "int \<Rightarrow> string option \<Rightarrow> userData \<Rightarrow> token" where
  "generateJWT clock_ms env ud =
     jwt_sign
       \<lparr>userId = ud_userId ud,
        username = ud_username ud,
        email = ud_email ud,
        role = Some (case ud_role ud of None \<Rightarrow> ''user'' | Some r \<Rightarrow> r),
        sub = None,
        cognito_username = None,
        cognito_groups = None,
        iat_claim = Some (now_seconds clock_ms),
        exp_claim = Some (now_seconds clock_ms + 24 * 60 * 60)\<rparr>
       (JWT_SECRET env)"

text \<open>The \<open>user\<close> object of a successful \<open>verifyToken\<close>.\<close>

record verified_user =
  vu_userId :: "string option"
  vu_username :: "string option"
  vu_email :: "string option"
  vu_groups :: "string list"

text \<open>
  \<open>verifyToken(token)\<close>: an \<open>Error\<close> thrown inside the \<open>try\<close> is caught and
  returned as \<open>{success: false, error: message}\<close>, here \<open>Inl message\<close>. The expiry
  test is \<open>decoded.exp && decoded.exp < now\<close>: the number 0 is falsy.
\<close>

definition verifyToken :: "int \<Rightarrow> token \<Rightarrow> string + verified_user" where
  "verifyToken clock_ms t =
     (case jwt_decode t of
        None \<Rightarrow> Inl ''Invalid token format''
      | Some decoded \<Rightarrow>
          let now = now_seconds clock_ms
          in if (case exp_claim decoded of None \<Rightarrow> False | Some e \<Rightarrow> e \<noteq> 0 \<and> e < now)
             then Inl ''Token has expired''
             else Inr \<lparr>vu_userId = js_or (sub decoded) (username decoded),
                       vu_username = js_or (username decoded) (cognito_username decoded),
                       vu_email = email decoded,
                       vu_groups = (case cognito_groups decoded of None \<Rightarrow> [] | Some gs \<Rightarrow> gs)\<rparr>)"

section \<open>Request guards of the application files\<close>

text \<open>
  \<open>authenticateToken(req, res, next)\<close>. The bearer token is the second word of the
  \<open>Authorization\<close> header; \<open>None\<close> when the header or that word is missing.
  Any error of \<open>jwt.verify\<close> is answered with 403 "Invalid token".
\<close>

definition authenticateToken :: "string option \<Rightarrow> int \<Rightarrow> token option \<Rightarrow> claims outcome" where
  "authenticateToken env clock_ms bearer =
     (case bearer of
        None \<Rightarrow> Respond 401 (ErrorBody ''Access token required'')
      | Some t \<Rightarrow>
          (case jwt_verify t (JWT_SECRET env) clock_ms of
             Inl err \<Rightarrow> Respond 403 (ErrorBody ''Invalid token'')
           | Inr user \<Rightarrow>
               if \<not> truthy (username user)
               then Respond 401 (ErrorBody ''Username missing in token'')
               else Next user))"

text \<open>\<open>authorizeGroup(requiredGroup)(req, res, next)\<close> reads the groups from the token.\<close>

definition authorizeGroup :: "string \<Rightarrow> claims \<Rightarrow> claims outcome" where
  "authorizeGroup requiredGroup user =
     (let groups = (case cognito_groups user of None \<Rightarrow> [] | Some gs \<Rightarrow> gs)
      in if requiredGroup \<notin> set groups
         then Respond 403 (ErrorBody ''Access denied: insufficient group privileges'')
         else Next user)"

section \<open>The identity provider client\<close>

text \<open>
  The services reach the external user pool only through \<open>cognitoClient.send(command)\<close>.
  A command is the request the code builds, with the parameters that vary; a reply is
  the response object or a thrown exception with its \<open>name\<close> and \<open>message\<close>. The
  client is a parameter of every service function: it maps a command and the state of
  the pool to a reply and the new state.
\<close>

datatype command =
    AdminInitiateAuth string string
  | VerifySoftwareToken string string
  | AdminVerifySoftwareToken string string
  | AdminSetUserMFAPreference string bool bool
  | AdminListGroupsForUser string nat
  | AdminRemoveUserFromGroup string string
  | AdminAddUserToGroup string string
  | AdminDisableUser string
  | AdminEnableUser string
  | AdminUpdateUserAttributes string "(string \<times> string) list"

record auth_tokens =
  AccessToken :: string
  IdToken :: string
  RefreshToken :: string
  ExpiresIn :: int

record response =
  AuthenticationResult :: "auth_tokens option"
  ChallengeName :: "string option"
  Session :: "string option"
  ChallengeParameters :: "(string \<times> string) list option"
  Groups :: "string list option"

datatype reply = Returns response | Throws string string

type_synonym 's client = "command \<Rightarrow> 's \<Rightarrow> reply \<times> 's"

text \<open>A client that also records every command it is sent.\<close>

definition logged :: "'s client \<Rightarrow> (command list \<times> 's) client" where
  "logged send c st =
     (case st of (log, s) \<Rightarrow> (case send c s of (r, s') \<Rightarrow> (r, (log @ [c], s'))))"

section \<open>Objects returned to the routes and to the caller\<close>

text \<open>
  A JavaScript object is the list of its defined properties; reading a property that
  was never set gives \<open>undefined\<close> (\<open>None\<close>).
\<close>

datatype jsval =
    JStr string
  | JBool bool
  | JNum int
  | JTok token
  | JStrs "string list"
  | JPairs "(string \<times> string) list"
  | JObj "(string \<times> jsval) list"

type_synonym jsobj = "(string \<times> jsval) list"

definition get_prop :: "jsobj \<Rightarrow> string \<Rightarrow> jsval option" where
  "get_prop obj k = map_of obj k"

text \<open>An object literal: properties whose value is \<open>undefined\<close> do not appear.\<close>

fun object :: "(string \<times> jsval option) list \<Rightarrow> jsobj" where
  "object [] = []"
| "object ((k, None) # ps) = object ps"
| "object ((k, Some v) # ps) = (k, v) # object ps"

definition js_truthy :: "jsval option \<Rightarrow> bool" where
  "js_truthy v =
     (case v of
        None \<Rightarrow> False
      | Some (JStr s) \<Rightarrow> s \<noteq> []
      | Some (JBool b) \<Rightarrow> b
      | Some (JNum n) \<Rightarrow> n \<noteq> 0
      | Some _ \<Rightarrow> True)"

definition as_string :: "jsval option \<Rightarrow> string option" where
  "as_string v = (case v of Some (JStr s) \<Rightarrow> Some s | _ \<Rightarrow> None)"

datatype http_response = Resp nat jsobj

section \<open>authenticateUser and the login routes\<close>

text \<open>
  \<open>authenticateUser(username, password)\<close> returns its result object or throws an
  \<open>Error\<close> (\<open>Inl message\<close>). The \<open>Error\<close> of the "no result" branch is thrown inside
  the \<open>try\<close> and so passes through the \<open>catch\<close>, which wraps its message.
  \<open>authenticatedAt\<close> is the clock reading rather than its ISO string.
\<close>

definition authenticateUser ::
  "'s client \<Rightarrow> int \<Rightarrow> string \<Rightarrow> string \<Rightarrow> 's \<Rightarrow> (string + jsobj) \<times> 's" where
  "authenticateUser send clock_ms uname password s =
     (case send (AdminInitiateAuth uname password) s of
        (Returns result, s') \<Rightarrow>
          (case AuthenticationResult result of
             Some tk \<Rightarrow>
               (Inr (object
                  [(''success'', Some (JBool True)),
                   (''tokens'', Some (JObj (object
                      [(''accessToken'', Some (JStr (AccessToken tk))),
                       (''idToken'', Some (JStr (IdToken tk))),
                       (''refreshToken'', Some (JStr (RefreshToken tk))),
                       (''expiresIn'', Some (JNum (ExpiresIn tk)))]))),
                   (''user'', Some (JObj (object
                      [(''username'', Some (JStr uname)),
                       (''authenticatedAt'', Some (JNum clock_ms))])))]), s')
           | None \<Rightarrow>
               if truthy (ChallengeName result)
               then (Inr (object
                  [(''success'', Some (JBool False)),
                   (''challenge'', map_option JStr (ChallengeName result)),
                   (''session'', map_option JStr (Session result)),
                   (''parameters'', map_option JPairs (ChallengeParameters result))]), s')
               else (Inl (''Authentication failed: '' @ ''Authentication failed - no result''), s'))
      | (Throws name message, s') \<Rightarrow>
          (Inl (if name = ''NotAuthorizedException'' then ''Invalid username or password''
                else if name = ''UserNotConfirmedException'' then ''User account not confirmed''
                else if name = ''UserNotFoundException'' then ''User not found''
                else ''Authentication failed: '' @ message), s'))"

text \<open>The body of a login request.\<close>

record credentials =
  cred_username :: "string option"
  cred_password :: "string option"

text \<open>
  \<open>POST /api/auth/login\<close> of the application with MFA support. The handler reads
  \<open>result.challengeName\<close>, \<open>result.Session\<close> and \<open>result.error\<close> from the object
  \<open>authenticateUser\<close> returned. Reading a property of an undefined
  \<open>result.user\<close> throws a \<open>TypeError\<close>, answered by the \<open>catch\<close> with status 500.
\<close>

definition post_auth_login ::
  "'s client \<Rightarrow> string option \<Rightarrow> int \<Rightarrow> credentials \<Rightarrow> 's \<Rightarrow> http_response \<times> 's" where
  "post_auth_login send env clock_ms req s =
     (if \<not> truthy (cred_username req) \<or> \<not> truthy (cred_password req)
      then (Resp 400 [(''error'', JStr ''Username and password are required'')], s)
      else
        (case authenticateUser send clock_ms (the (cred_username req)) (the (cred_password req)) s of
           (Inl message, s') \<Rightarrow> (Resp 500 [(''error'', JStr message)], s')
         | (Inr result, s') \<Rightarrow>
             if js_truthy (get_prop result ''success'')
             then
               (case get_prop result ''user'' of
                  Some (JObj user) \<Rightarrow>
                    let jwtToken = generateJWT clock_ms env
                          \<lparr>ud_userId = as_string (get_prop user ''username''),
                           ud_username = as_string (get_prop user ''username''),
                           ud_email = js_or (as_string (get_prop user ''email'')) (Some []),
                           ud_role = Some ''user'',
                           ud_cognito_groups =
                             Some (case get_prop user ''groups'' of
                                     Some (JStrs gs) \<Rightarrow> gs | _ \<Rightarrow> [])\<rparr>
                    in (Resp 200 (object
                          [(''message'', Some (JStr ''Login successful'')),
                           (''token'', Some (JTok jwtToken)),
                           (''user'', Some (JObj user)),
                           (''expiresIn'', Some (JStr ''24h''))]), s')
                | _ \<Rightarrow>
                    (Resp 500 [(''error'', JStr ''Cannot read properties of undefined'')], s'))
             else if get_prop result ''challengeName'' = Some (JStr ''SMS_MFA'')
                     \<or> get_prop result ''challengeName'' = Some (JStr ''SOFTWARE_TOKEN_MFA'')
             then (Resp 200 (object
                     [(''mfaRequired'', Some (JBool True)),
                      (''challenge'', get_prop result ''challengeName''),
                      (''session'', get_prop result ''Session''),
                      (''username'', map_option JStr (cred_username req))]), s')
             else (Resp 401
                     [(''error'',
                       if js_truthy (get_prop result ''error'') then the (get_prop result ''error'')
                       else JStr ''Authentication failed'')], s')))"

text \<open>\<open>POST /api/auth/login\<close> of app-cloud.js, which reads \<open>result.challenge\<close>.\<close>

definition post_auth_login_cloud ::
  "'s client \<Rightarrow> string option \<Rightarrow> int \<Rightarrow> credentials \<Rightarrow> 's \<Rightarrow> http_response \<times> 's" where
  "post_auth_login_cloud send env clock_ms req s =
     (if \<not> truthy (cred_username req) \<or> \<not> truthy (cred_password req)
      then (Resp 400 [(''error'', JStr ''Username and password are required'')], s)
      else
        (case authenticateUser send clock_ms (the (cred_username req)) (the (cred_password req)) s of
           (Inl message, s') \<Rightarrow> (Resp 500 [(''error'', JStr message)], s')
         | (Inr result, s') \<Rightarrow>
             if js_truthy (get_prop result ''success'')
             then
               (case get_prop result ''user'' of
                  Some (JObj user) \<Rightarrow>
                    let jwtToken = generateJWT clock_ms env
                          \<lparr>ud_userId = as_string (get_prop user ''username''),
                           ud_username = as_string (get_prop user ''username''),
                           ud_email = js_or (as_string (get_prop user ''email'')) (Some []),
                           ud_role = Some ''user'',
                           ud_cognito_groups = None\<rparr>
                    in (Resp 200 (object
                          [(''message'', Some (JStr ''Login successful'')),
                           (''token'', Some (JTok jwtToken)),
                           (''user'', Some (JObj user)),
                           (''expiresIn'', Some (JStr ''24h''))]), s')
                | _ \<Rightarrow>
                    (Resp 500 [(''error'', JStr ''Cannot read properties of undefined'')], s'))
             else if js_truthy (get_prop result ''challenge'')
             then (Resp 200 (object
                     [(''challenge'', get_prop result ''challenge''),
                      (''session'', get_prop result ''session''),
                      (''parameters'', get_prop result ''parameters'')]), s')
             else (Resp 401
                     [(''error'',
                       if js_truthy (get_prop result ''error'') then the (get_prop result ''error'')
                       else JStr ''Authentication failed'')], s')))"

section \<open>initiateAuthWithMFA (services/mfa-service.js)\<close>

text \<open>
  \<open>initiateAuthWithMFA(username, password)\<close> sends the same command as
  \<open>authenticateUser\<close>. It returns the challenge under the properties
  \<open>challengeName\<close> and \<open>session\<close>, and otherwise the provider's
  \<open>AuthenticationResult\<close> as \<open>authResult\<close>; any exception is rethrown wrapped.
\<close>

definition initiateAuthWithMFA ::
  "'s client \<Rightarrow> string \<Rightarrow> string \<Rightarrow> 's \<Rightarrow> (string + jsobj) \<times> 's" where
  "initiateAuthWithMFA send uname password s =
     (case send (AdminInitiateAuth uname password) s of
        (Returns result, s') \<Rightarrow>
          if ChallengeName result = Some ''SOFTWARE_TOKEN_MFA''
          then (Inr (object
                  [(''success'', Some (JBool True)),
                   (''challengeName'', map_option JStr (ChallengeName result)),
                   (''session'', map_option JStr (Session result)),
                   (''message'', Some (JStr ''MFA code required''))]), s')
          else (Inr (object
                  [(''success'', Some (JBool True)),
                   (''authResult'',
                    map_option
                      (\<lambda>tk. JObj
                         [(''AccessToken'', JStr (AccessToken tk)),
                          (''IdToken'', JStr (IdToken tk)),
                          (''RefreshToken'', JStr (RefreshToken tk)),
                          (''ExpiresIn'', JNum (ExpiresIn tk))])
                      (AuthenticationResult result)),
                   (''message'', Some (JStr ''Authentication successful''))]), s')
      | (Throws name message, s') \<Rightarrow> (Inl (''Authentication failed: '' @ message), s'))"

section \<open>The command classes exported by aws-config\<close>

text \<open>
  The services build every request as \<open>new CognitoCommands.X(parameters)\<close>, where
  \<open>CognitoCommands\<close> is the table exported by aws-config. These are the classes it
  exports. A class that is not in the table is \<open>undefined\<close>: \<open>new\<close> then throws a
  \<open>TypeError\<close> and nothing is sent.
\<close>

definition CognitoCommands :: "string list" where
  "CognitoCommands =
     [''AdminCreateUserCommand'', ''AdminConfirmSignUpCommand'', ''AdminInitiateAuthCommand'',
      ''AdminGetUserCommand'', ''AdminUpdateUserAttributesCommand'', ''AdminDeleteUserCommand'',
      ''AdminRespondToAuthChallengeCommand'', ''AssociateSoftwareTokenCommand'',
      ''VerifySoftwareTokenCommand'', ''SetUserMFAPreferenceCommand'',
      ''AdminSetUserMFAPreferenceCommand'']"

text \<open>
  \<open>new CognitoCommands.X(\<dots>)\<close> followed by \<open>cognitoClient.send(command)\<close>, both
  inside the same \<open>try\<close>: the reply of the provider, or the \<open>TypeError\<close> of the
  constructor call with the state untouched.
\<close>

definition send_new :: "'s client \<Rightarrow> string \<Rightarrow> command \<Rightarrow> 's \<Rightarrow> reply \<times> 's" where
  "send_new send cls c s =
     (if cls \<in> set CognitoCommands then send c s
      else (Throws ''TypeError'' (''CognitoCommands.'' @ cls @ '' is not a constructor''), s))"

section \<open>MFA and group services (services/cognito-service.js)\<close>

text \<open>
  These methods catch every exception and return \<open>{success: false, error}\<close>
  (\<open>Failure\<close>), or \<open>{success: true, \<dots>}\<close> (\<open>Success\<close> with the other properties).
\<close>

datatype 'a service_result = Success 'a | Failure string

text \<open>
  \<open>verifyMFA(username, code, secret = null)\<close>. With a secret it verifies the code
  against the secret and then enables the user's MFA preference; without one it builds
  an \<open>AdminVerifySoftwareTokenCommand\<close>. The result carries \<open>status\<close> and
  \<open>message\<close>.
\<close>

definition verifyMFA ::
  "'s client \<Rightarrow> string \<Rightarrow> string \<Rightarrow> string option \<Rightarrow> 's
     \<Rightarrow> (string \<times> string) service_result \<times> 's" where
  "verifyMFA send uname code secret s =
     (case (if truthy secret
            then send_new send ''VerifySoftwareTokenCommand''
                   (VerifySoftwareToken code (the secret)) s
            else send_new send ''AdminVerifySoftwareTokenCommand''
                   (AdminVerifySoftwareToken uname code) s) of
        (Throws name message, s1) \<Rightarrow>
          (Failure (if name = ''CodeMismatchException'' then ''Invalid MFA code'' else message), s1)
      | (Returns verifyResult, s1) \<Rightarrow>
          if truthy secret
          then (case send_new send ''AdminSetUserMFAPreferenceCommand''
                       (AdminSetUserMFAPreference uname True True) s1 of
                  (Throws name message, s2) \<Rightarrow>
                    (Failure (if name = ''CodeMismatchException'' then ''Invalid MFA code''
                              else message), s2)
                | (Returns enableResult, s2) \<Rightarrow>
                    (Success (''enabled'', ''MFA enabled successfully''), s2))
          else (Success (''verified'', ''MFA code verified''), s1))"

text \<open>
  \<open>listGroupsForUser(username)\<close> builds an \<open>AdminListGroupsForUserCommand\<close> with
  \<open>Limit: 10\<close> and returns the names in \<open>result.Groups\<close>. Reading \<open>map\<close> of an
  undefined \<open>result.Groups\<close> throws a \<open>TypeError\<close>.
\<close>

definition listGroupsForUser ::
  "'s client \<Rightarrow> string \<Rightarrow> 's \<Rightarrow> string list service_result \<times> 's" where
  "listGroupsForUser send uname s =
     (case send_new send ''AdminListGroupsForUserCommand'' (AdminListGroupsForUser uname 10) s of
        (Returns result, s') \<Rightarrow>
          (case Groups result of
             Some gs \<Rightarrow> (Success gs, s')
           | None \<Rightarrow>
               (Failure (''Cannot read properties of undefined (reading ''
                           @ [CHR 0x27] @ ''map'' @ [CHR 0x27] @ '')''), s'))
      | (Throws name message, s') \<Rightarrow> (Failure message, s'))"

definition cognito_removeUserFromGroup ::
  "'s client \<Rightarrow> string \<Rightarrow> string \<Rightarrow> 's \<Rightarrow> string service_result \<times> 's" where
  "cognito_removeUserFromGroup send uname groupName s =
     (case send_new send ''AdminRemoveUserFromGroupCommand''
             (AdminRemoveUserFromGroup uname groupName) s of
        (Returns result, s') \<Rightarrow> (Success (''User removed from '' @ groupName @ '' group''), s')
      | (Throws name message, s') \<Rightarrow> (Failure message, s'))"

definition cognito_addUserToGroup ::
  "'s client \<Rightarrow> string \<Rightarrow> string \<Rightarrow> 's \<Rightarrow> string service_result \<times> 's" where
  "cognito_addUserToGroup send uname groupName s =
     (case send_new send ''AdminAddUserToGroupCommand''
             (AdminAddUserToGroup uname groupName) s of
        (Returns result, s') \<Rightarrow> (Success (''User added to '' @ groupName @ '' group''), s')
      | (Throws name message, s') \<Rightarrow> (Failure message, s'))"

text \<open>
  \<open>this.updateUserAttributes(username, attributes)\<close> inside \<open>updateUserRole\<close>: the
  class of services/cognito-service.js defines no method of that name, so the call
  throws a \<open>TypeError\<close> (\<open>Inl\<close> its message).
\<close>

definition this_updateUserAttributes ::
  "'s client \<Rightarrow> string \<Rightarrow> (string \<times> string) list \<Rightarrow> 's
     \<Rightarrow> (string + (string \<times> string) list) \<times> 's" where
  "this_updateUserAttributes send uname attributes s =
     (Inl ''this.updateUserAttributes is not a function'', s)"

text \<open>
  The loop of \<open>updateUserRole\<close> over the listed groups: each removal is awaited and
  its result is not looked at.
\<close>

fun removeFromAll :: "'s client \<Rightarrow> string \<Rightarrow> string list \<Rightarrow> 's \<Rightarrow> 's" where
  "removeFromAll send uname [] s = s"
| "removeFromAll send uname (g # gs) s =
     removeFromAll send uname gs (snd (cognito_removeUserFromGroup send uname g s))"

text \<open>
  The enable or disable command chosen by \<open>status\<close>, with the name of its class;
  \<open>None\<close> when no command is built.
\<close>

definition statusCommand :: "string \<Rightarrow> string \<Rightarrow> (string \<times> command) option" where
  "statusCommand uname status =
     (if status = ''suspended'' then Some (''AdminDisableUserCommand'', AdminDisableUser uname)
      else if status = ''active'' then Some (''AdminEnableUserCommand'', AdminEnableUser uname)
      else None)"

text \<open>\<open>updateUserRole(username, newRole, status = 'active')\<close>\<close>

definition updateUserRole ::
  "'s client \<Rightarrow> string \<Rightarrow> string \<Rightarrow> string option \<Rightarrow> 's \<Rightarrow> string service_result \<times> 's" where
  "updateUserRole send uname newRole status_arg s =
     (let status = (case status_arg of None \<Rightarrow> ''active'' | Some st \<Rightarrow> st)
      in case listGroupsForUser send uname s of
           (Failure e, s1) \<Rightarrow> (Failure e, s1)
         | (Success groups, s1) \<Rightarrow>
             let s2 = removeFromAll send uname groups s1
             in (case cognito_addUserToGroup send uname newRole s2 of
                   (Failure e, s3) \<Rightarrow> (Failure e, s3)
                 | (Success added, s3) \<Rightarrow>
                     (case (case statusCommand uname status of
                              None \<Rightarrow> (None, s3)
                            | Some (cls, c) \<Rightarrow>
                                (case send_new send cls c s3 of
                                   (Returns result, s4) \<Rightarrow> (None, s4)
                                 | (Throws name message, s4) \<Rightarrow> (Some message, s4))) of
                        (Some message, s4) \<Rightarrow> (Failure message, s4)
                      | (None, s4) \<Rightarrow>
                          (case this_updateUserAttributes send uname
                                  [(''custom:role'', newRole), (''custom:status'', status)] s4 of
                             (Inl message, s5) \<Rightarrow> (Failure message, s5)
                           | (Inr updated, s5) \<Rightarrow>
                               (Success (''User role updated to '' @ newRole @ '', status: '' @ status),
                                s5)))))"

section \<open>A user pool to run the services against\<close>

text \<open>
  The user pool is an external service. To evaluate the code on concrete inputs, this
  is a small pool with the behaviour the code relies on: passwords, users with
  software-token MFA enabled, and the one-time code currently valid for each secret.
  An unknown username is reported with \<open>UserNotFoundException\<close>, a wrong password with
  \<open>NotAuthorizedException\<close>, a wrong code with \<open>CodeMismatchException\<close>.
\<close>

record pool =
  pool_passwords :: "(string \<times> string) list"
  pool_mfa :: "string list"
  pool_codes :: "(string \<times> string) list"

definition no_response :: response where
  "no_response = \<lparr>AuthenticationResult = None, ChallengeName = None, Session = None,
                    ChallengeParameters = None, Groups = None\<rparr>"

definition pool_send :: "pool client" where
  "pool_send c s =
     (case c of
        AdminInitiateAuth uname password \<Rightarrow>
          (case map_of (pool_passwords s) uname of
             None \<Rightarrow> (Throws ''UserNotFoundException'' ''User does not exist.'', s)
           | Some stored \<Rightarrow>
               if stored \<noteq> password
               then (Throws ''NotAuthorizedException'' ''Incorrect username or password.'', s)
               else if uname \<in> set (pool_mfa s)
               then (Returns (no_response
                       \<lparr>ChallengeName := Some ''SOFTWARE_TOKEN_MFA'',
                        Session := Some (''session-of-'' @ uname),
                        ChallengeParameters := Some [(''USER_ID_FOR_SRP'', uname)]\<rparr>), s)
               else (Returns (no_response
                       \<lparr>AuthenticationResult :=
                          Some \<lparr>AccessToken = ''access-'' @ uname, IdToken = ''id-'' @ uname,
                                RefreshToken = ''refresh-'' @ uname, ExpiresIn = 3600\<rparr>\<rparr>), s))
      | VerifySoftwareToken code secret \<Rightarrow>
          if map_of (pool_codes s) secret = Some code then (Returns no_response, s)
          else (Throws ''CodeMismatchException'' ''Code mismatch'', s)
      | AdminSetUserMFAPreference uname enabled preferred \<Rightarrow>
          (Returns no_response,
           s\<lparr>pool_mfa := (if enabled then uname # removeAll uname (pool_mfa s)
                           else removeAll uname (pool_mfa s))\<rparr>)
      | _ \<Rightarrow> (Returns no_response, s))"

definition example_pool :: pool where
  "example_pool =
     \<lparr>pool_passwords = [(''alice'', ''alice-pw''), (''bob'', ''bob-pw''), (''carol'', ''carol-pw'')],
      pool_mfa = [''bob''],
      pool_codes = [(''ALICESECRET'', ''123456'')]\<rparr>"

section \<open>Properties of the group membership store\<close>

lemma getUserGroups_add:
  "getUserGroups (addUserToGroup m u g) u' =
     (if u' = u \<and> g \<notin> set (getUserGroups m u) then getUserGroups m u @ [g]
      else getUserGroups m u')"
  by (simp add: addUserToGroup_def getUserGroups_def Let_def)

lemma getUserGroups_remove:
  "getUserGroups (removeUserFromGroup m u g) u' =
     (if u' = u then filter (\<lambda>group. group \<noteq> g) (getUserGroups m u)
      else getUserGroups m u')"
  by (simp add: removeUserFromGroup_def getUserGroups_def Let_def)

lemma member_after_add: "g \<in> set (getUserGroups (addUserToGroup m u g) u)"
  by (simp add: getUserGroups_add)

lemma add_when_held: "g \<in> set (getUserGroups m u) \<Longrightarrow> addUserToGroup m u g = m"
  by (simp add: addUserToGroup_def Let_def)

lemma count_list_distinct: "distinct xs \<Longrightarrow> x \<in> set xs \<Longrightarrow> count_list xs x = 1"
  by (induction xs) auto

lemma reachable_distinct: "reachable m \<Longrightarrow> distinct (getUserGroups m u)"
proof (induction arbitrary: u rule: reachable.induct)
  case initial
  show ?case by (simp add: initialMembership_def getUserGroups_def)
next
  case (added m uname groupName)
  then show ?case by (simp add: getUserGroups_add)
next
  case (removed m uname groupName)
  then show ?case by (simp add: getUserGroups_remove)
qed

text \<open>
  C9. Adding a user to a group twice leaves the store as adding once does, and the user's
  group list then holds the group exactly once; removing a user from a group the user
  does not hold changes no user's group list.
\<close>

theorem group_updates_idempotent:
  "reachable m \<Longrightarrow>
     addUserToGroup (addUserToGroup m p g) p g = addUserToGroup m p g
     \<and> count_list (getUserGroups (addUserToGroup (addUserToGroup m p g) p g) p) g = 1
     \<and> (g \<notin> set (getUserGroups m p) \<longrightarrow>
            (\<forall>q. getUserGroups (removeUserFromGroup m p g) q = getUserGroups m q))"
proof -
  assume r: "reachable m"
  have twice: "addUserToGroup (addUserToGroup m p g) p g = addUserToGroup m p g"
    by (rule add_when_held) (rule member_after_add)
  have "reachable (addUserToGroup m p g)"
    using r by (rule reachable.added)
  then have "distinct (getUserGroups (addUserToGroup m p g) p)"
    by (rule reachable_distinct)
  then have once: "count_list (getUserGroups (addUserToGroup m p g) p) g = 1"
    using member_after_add [of g m p] by (simp add: count_list_distinct)
  have noop: "getUserGroups (removeUserFromGroup m p g) q = getUserGroups m q"
    if "g \<notin> set (getUserGroups m p)" for q
  proof -
    have "filter (\<lambda>group. group \<noteq> g) (getUserGroups m p) = getUserGroups m p"
      using that by (auto simp: filter_id_conv)
    then show ?thesis by (simp add: getUserGroups_remove)
  qed
  from twice once noop show ?thesis by simp
qed

theorem group_updates_idempotent_witness:
  "reachable initialMembership
   \<and> count_list (getUserGroups
        (addUserToGroup (addUserToGroup initialMembership ''user'' ''User'') ''user'' ''User'')
        ''user'') ''User'' = 1
   \<and> getUserGroups (removeUserFromGroup initialMembership ''user'' ''Admin'') ''user'' = [''User'']"
proof -
  have held: "''Admin'' \<notin> set (getUserGroups initialMembership ''user'')"
    by (simp add: initialMembership_def getUserGroups_def)
  have groups: "getUserGroups initialMembership ''user'' = [''User'']"
    by (simp add: initialMembership_def getUserGroups_def)
  note add = group_updates_idempotent [OF reachable.initial, where p = "''user''" and g = "''User''"]
  note rem = group_updates_idempotent [OF reachable.initial, where p = "''user''" and g = "''Admin''"]
  from add have "count_list (getUserGroups
        (addUserToGroup (addUserToGroup initialMembership ''user'' ''User'') ''user'' ''User'')
        ''user'') ''User'' = 1"
    by blast
  moreover from rem held
  have "getUserGroups (removeUserFromGroup initialMembership ''user'' ''Admin'') ''user''
          = getUserGroups initialMembership ''user''"
    by blast
  ultimately show ?thesis
    using groups reachable.initial by simp
qed

section \<open>Properties of the requireGroup guard\<close>

lemma requireGroup_authenticated:
  assumes "username u = Some name" and "name \<noteq> []"
  shows "requireGroup allowedGroups m (Some u) =
           (if \<exists>g \<in> set (groupsArray allowedGroups). g \<in> set (getUserGroups m name)
            then Next (u, getUserGroups m name)
            else Respond 403
                   (ErrorWithGroups
                      (''Insufficient permissions. Required groups: ''
                         @ join '', '' (groupsArray allowedGroups))
                      (getUserGroups m name)))"
  using assms by (simp add: requireGroup_def truthy_def Let_def list_ex_iff)

text \<open>
  C3. For an authenticated caller (a request whose user carries a non-empty username),
  \<open>requireGroup\<close> lets the request through exactly when one of the required groups is
  in the caller's group list in the membership store; otherwise it answers 403 with the
  "Insufficient permissions" error and the caller's own group list; a caller with no
  groups is denied whatever the required groups are.
\<close>

theorem requireGroup_allows_iff:
  "username u = Some name \<Longrightarrow> name \<noteq> [] \<Longrightarrow>
     ((\<exists>r. requireGroup allowedGroups m (Some u) = Next r)
        \<longleftrightarrow> (\<exists>g \<in> set (groupsArray allowedGroups). g \<in> set (getUserGroups m name)))
     \<and> (\<not> (\<exists>g \<in> set (groupsArray allowedGroups). g \<in> set (getUserGroups m name)) \<longrightarrow>
            requireGroup allowedGroups m (Some u) =
              Respond 403
                (ErrorWithGroups
                   (''Insufficient permissions. Required groups: ''
                      @ join '', '' (groupsArray allowedGroups))
                   (getUserGroups m name)))
     \<and> (getUserGroups m name = [] \<longrightarrow>
            (\<exists>msg. requireGroup allowedGroups m (Some u) = Respond 403 (ErrorWithGroups msg [])))"
  by (simp add: requireGroup_authenticated)

theorem requireGroup_allows_iff_witness:
  "(\<exists>r. requireGroup (Many [''Moderator'', ''Admin'']) initialMembership
          (Some \<lparr>userId = None, username = Some ''admin'', email = None, role = None, sub = None,
                 cognito_username = None, cognito_groups = None, iat_claim = None,
                 exp_claim = None\<rparr>) = Next r)
   \<and> requireGroup (One ''Admin'') initialMembership
          (Some \<lparr>userId = None, username = Some ''user'', email = None, role = None, sub = None,
                 cognito_username = None, cognito_groups = None, iat_claim = None,
                 exp_claim = None\<rparr>)
        = Respond 403
            (ErrorWithGroups ''Insufficient permissions. Required groups: Admin'' [''User''])
   \<and> (\<exists>msg. requireGroup (One ''User'') initialMembership
          (Some \<lparr>userId = None, username = Some ''guest'', email = None, role = None, sub = None,
                 cognito_username = None, cognito_groups = None, iat_claim = None,
                 exp_claim = None\<rparr>)
        = Respond 403 (ErrorWithGroups msg []))"
proof -
  let ?u = "\<lambda>n. \<lparr>userId = None, username = Some n, email = None, role = None, sub = None,
                 cognito_username = None, cognito_groups = None, iat_claim = None,
                 exp_claim = None\<rparr>"
  have admin: "getUserGroups initialMembership ''admin'' = [''Admin'']"
    and user: "getUserGroups initialMembership ''user'' = [''User'']"
    and guest: "getUserGroups initialMembership ''guest'' = []"
    by (simp_all add: initialMembership_def getUserGroups_def)
  have "\<exists>r. requireGroup (Many [''Moderator'', ''Admin'']) initialMembership (Some (?u ''admin'')) = Next r"
    using requireGroup_allows_iff [of "?u ''admin''" "''admin''" "Many [''Moderator'', ''Admin'']" initialMembership]
    by (simp add: admin groupsArray_def)
  moreover have "requireGroup (One ''Admin'') initialMembership (Some (?u ''user''))
        = Respond 403
            (ErrorWithGroups ''Insufficient permissions. Required groups: Admin'' [''User''])"
    using requireGroup_allows_iff [of "?u ''user''" "''user''" "One ''Admin''" initialMembership]
    by (simp add: user groupsArray_def)
  moreover have "\<exists>msg. requireGroup (One ''User'') initialMembership (Some (?u ''guest''))
        = Respond 403 (ErrorWithGroups msg [])"
    using requireGroup_allows_iff [of "?u ''guest''" "''guest''" "One ''User''" initialMembership]
    by (simp add: guest groupsArray_def)
  ultimately show ?thesis by simp
qed

section \<open>Properties of the token issuer and verifier\<close>

lemma jwt_decode_sign: "jwt_decode (jwt_sign payload secret) = Some payload"
  by (simp add: jwt_decode_def jwt_sign_def)

lemma jwt_verify_Inr:
  "jwt_verify t secret ms = Inr u \<longleftrightarrow>
     t = jwt_sign u secret \<and> (\<forall>e. exp_claim u = Some e \<longrightarrow> now_seconds ms < e)"
  by (auto simp: jwt_verify_def jwt_sign_def split: token.splits option.splits)

lemma verifyToken_decoded:
  "jwt_decode t = Some c \<Longrightarrow>
     verifyToken ms t =
       (if (\<exists>e. exp_claim c = Some e \<and> e \<noteq> 0 \<and> e < now_seconds ms)
        then Inl ''Token has expired''
        else Inr \<lparr>vu_userId = js_or (sub c) (username c),
                  vu_username = js_or (username c) (cognito_username c),
                  vu_email = email c,
                  vu_groups = (case cognito_groups c of None \<Rightarrow> [] | Some gs \<Rightarrow> gs)\<rparr>)"
  by (simp add: verifyToken_def Let_def split: option.splits)

lemma authenticateToken_signed:
  "authenticateToken env ms (Some (jwt_sign c (JWT_SECRET env))) =
     (if (\<exists>e. exp_claim c = Some e \<and> e \<le> now_seconds ms)
      then Respond 403 (ErrorBody ''Invalid token'')
      else if \<not> truthy (username c) then Respond 401 (ErrorBody ''Username missing in token'')
      else Next c)"
  by (auto simp: authenticateToken_def jwt_verify_def jwt_sign_def split: option.splits)

text \<open>
  C6, as stated, fails. A token whose expiry time is 0 is accepted by \<open>verifyToken\<close>
  eleven days after the epoch (the guard \<open>decoded.exp && \<dots>\<close> reads 0 as "no
  expiry"). And a token signed with the process key that expires at second 60 is
  refused by \<open>authenticateToken\<close> in second 60 itself, with 403 "Invalid token".
\<close>

theorem expiry_zero_and_expiry_instant:
  "verifyToken 1000000000
     (Jwt \<lparr>userId = Some ''alice'', username = Some ''alice'', email = None, role = None,
            sub = None, cognito_username = None, cognito_groups = None,
            iat_claim = Some (- 86400), exp_claim = Some 0\<rparr>
        (HS256 ''your-secret-key''
           \<lparr>userId = Some ''alice'', username = Some ''alice'', email = None, role = None,
            sub = None, cognito_username = None, cognito_groups = None,
            iat_claim = Some (- 86400), exp_claim = Some 0\<rparr>))
   = Inr \<lparr>vu_userId = Some ''alice'', vu_username = Some ''alice'', vu_email = None,
          vu_groups = []\<rparr>
   \<and> authenticateToken None 60000
       (Some (Jwt \<lparr>userId = Some ''alice'', username = Some ''alice'', email = None,
                    role = None, sub = None, cognito_username = None, cognito_groups = None,
                    iat_claim = Some 0, exp_claim = Some 60\<rparr>
                (HS256 ''your-secret-key''
                   \<lparr>userId = Some ''alice'', username = Some ''alice'', email = None,
                    role = None, sub = None, cognito_username = None, cognito_groups = None,
                    iat_claim = Some 0, exp_claim = Some 60\<rparr>)))
     = Respond 403 (ErrorBody ''Invalid token'')"
  by (simp add: verifyToken_def jwt_decode_def now_seconds_def js_or_def truthy_def
      authenticateToken_def jwt_verify_def JWT_SECRET_def)

text \<open>
  C6, amended. For a token that decodes and carries an expiry time \<open>e\<close> other than 0,
  \<open>verifyToken\<close> fails with "Token has expired" exactly when the clock, in whole
  seconds, is strictly after \<open>e\<close>; up to and at \<open>e\<close> itself the token is accepted.
  The \<open>authenticateToken\<close> guard lets a token signed with the process key, carrying
  a username and an expiry time \<open>e'\<close>, through exactly while the clock is strictly
  before \<open>e'\<close>; from the expiry instant on it answers 403 "Invalid token".
\<close>

theorem token_expiry_semantics:
  "(jwt_decode t = Some c \<and> exp_claim c = Some e \<and> e \<noteq> 0 \<longrightarrow>
      (verifyToken ms t = Inl ''Token has expired'' \<longleftrightarrow> e < now_seconds ms)
      \<and> (now_seconds ms \<le> e \<longrightarrow> (\<exists>u. verifyToken ms t = Inr u)))
   \<and> (exp_claim c' = Some e' \<and> truthy (username c') \<longrightarrow>
      (authenticateToken env ms (Some (jwt_sign c' (JWT_SECRET env))) = Next c'
         \<longleftrightarrow> now_seconds ms < e')
      \<and> (e' \<le> now_seconds ms \<longrightarrow>
            authenticateToken env ms (Some (jwt_sign c' (JWT_SECRET env)))
              = Respond 403 (ErrorBody ''Invalid token'')))"
proof -
  have decoded: "(verifyToken ms t = Inl ''Token has expired'' \<longleftrightarrow> e < now_seconds ms)
      \<and> (now_seconds ms \<le> e \<longrightarrow> (\<exists>u. verifyToken ms t = Inr u))"
    if "jwt_decode t = Some c" and "exp_claim c = Some e" and "e \<noteq> 0"
    using that by (simp add: verifyToken_decoded)
  have guard: "(authenticateToken env ms (Some (jwt_sign c' (JWT_SECRET env))) = Next c'
         \<longleftrightarrow> now_seconds ms < e')
      \<and> (e' \<le> now_seconds ms \<longrightarrow>
            authenticateToken env ms (Some (jwt_sign c' (JWT_SECRET env)))
              = Respond 403 (ErrorBody ''Invalid token''))"
    if "exp_claim c' = Some e'" and "truthy (username c')"
    using that by (auto simp: authenticateToken_signed)
  from decoded guard show ?thesis by blast
qed

theorem token_expiry_semantics_witness:
  "(\<exists>u. verifyToken 86405999 (generateJWT 5000 None
           \<lparr>ud_userId = Some ''alice'', ud_username = Some ''alice'', ud_email = Some [],
            ud_role = None, ud_cognito_groups = None\<rparr>) = Inr u)
   \<and> verifyToken 86406000 (generateJWT 5000 None
           \<lparr>ud_userId = Some ''alice'', ud_username = Some ''alice'', ud_email = Some [],
            ud_role = None, ud_cognito_groups = None\<rparr>) = Inl ''Token has expired''
   \<and> authenticateToken None 59999
         (Some (jwt_sign \<lparr>userId = Some ''alice'', username = Some ''alice'', email = None,
                  role = None, sub = None, cognito_username = None, cognito_groups = None,
                  iat_claim = Some 0, exp_claim = Some 60\<rparr> (JWT_SECRET None)))
       = Next \<lparr>userId = Some ''alice'', username = Some ''alice'', email = None,
                  role = None, sub = None, cognito_username = None, cognito_groups = None,
                  iat_claim = Some 0, exp_claim = Some 60\<rparr>
   \<and> authenticateToken None 60000
         (Some (jwt_sign \<lparr>userId = Some ''alice'', username = Some ''alice'', email = None,
                  role = None, sub = None, cognito_username = None, cognito_groups = None,
                  iat_claim = Some 0, exp_claim = Some 60\<rparr> (JWT_SECRET None)))
       = Respond 403 (ErrorBody ''Invalid token'')"
proof -
  let ?t = "generateJWT 5000 None
           \<lparr>ud_userId = Some ''alice'', ud_username = Some ''alice'', ud_email = Some [],
            ud_role = None, ud_cognito_groups = None\<rparr>"
  let ?c = "\<lparr>userId = Some ''alice'', username = Some ''alice'', email = None,
                  role = None, sub = None, cognito_username = None, cognito_groups = None,
                  iat_claim = Some 0, exp_claim = Some (60::int)\<rparr>"
  obtain c where c: "jwt_decode ?t = Some c" and e: "exp_claim c = Some 86405"
    by (simp add: generateJWT_def jwt_decode_sign now_seconds_def)
  have pre: "jwt_decode ?t = Some c \<and> exp_claim c = Some 86405 \<and> (86405::int) \<noteq> 0"
    using c e by simp
  have one: "\<exists>u. verifyToken 86405999 ?t = Inr u"
    using token_expiry_semantics [where t = ?t and c = c and e = 86405 and ms = 86405999] pre
    by (simp add: now_seconds_def)
  have two: "verifyToken 86406000 ?t = Inl ''Token has expired''"
    using token_expiry_semantics [where t = ?t and c = c and e = 86405 and ms = 86406000] pre
    by (simp add: now_seconds_def)
  have pre': "exp_claim ?c = Some 60 \<and> truthy (username ?c)"
    by (simp add: truthy_def)
  have three: "authenticateToken None 59999 (Some (jwt_sign ?c (JWT_SECRET None))) = Next ?c"
    using token_expiry_semantics [where c' = ?c and e' = 60 and ms = 59999 and env = None] pre'
    by (simp add: now_seconds_def)
  have four: "authenticateToken None 60000 (Some (jwt_sign ?c (JWT_SECRET None)))
       = Respond 403 (ErrorBody ''Invalid token'')"
    using token_expiry_semantics [where c' = ?c and e' = 60 and ms = 60000 and env = None] pre'
    by (simp add: now_seconds_def)
  from one two three four show ?thesis by blast
qed

text \<open>
  C1. The round trip at a concrete input: a token issued for user \<open>alice\<close> with the
  groups \<open>["Admin"]\<close>, verified in the second it was issued, comes back with the
  subject \<open>alice\<close> and an empty group list.
\<close>

theorem roundtrip_drops_groups:
  "verifyToken 1000
     (generateJWT 1000 None
        \<lparr>ud_userId = Some ''alice'', ud_username = Some ''alice'', ud_email = Some [],
         ud_role = Some ''user'', ud_cognito_groups = Some [''Admin'']\<rparr>)
   = Inr \<lparr>vu_userId = Some ''alice'', vu_username = Some ''alice'', vu_email = Some [],
          vu_groups = []\<rparr>"
  by (simp add: verifyToken_def generateJWT_def jwt_decode_sign now_seconds_def js_or_def
      truthy_def)

text \<open>
  C2, as stated, fails: a token that was signed with another key and that carries no
  subject at all fails \<open>jwt.verify\<close> under the process key with "invalid signature",
  and \<open>verifyToken\<close> accepts it and returns its claims.
\<close>

theorem verifyToken_accepts_forged_token:
  "jwt_verify
     (Jwt \<lparr>userId = None, username = None, email = None, role = None, sub = None,
            cognito_username = None, cognito_groups = Some [''Admin''], iat_claim = None,
            exp_claim = None\<rparr>
        (HS256 ''attacker-key''
           \<lparr>userId = None, username = None, email = None, role = None, sub = None,
            cognito_username = None, cognito_groups = Some [''Admin''], iat_claim = None,
            exp_claim = None\<rparr>))
     (JWT_SECRET None) 0
   = Inl (JsonWebTokenError ''invalid signature'')
   \<and> verifyToken 0
     (Jwt \<lparr>userId = None, username = None, email = None, role = None, sub = None,
            cognito_username = None, cognito_groups = Some [''Admin''], iat_claim = None,
            exp_claim = None\<rparr>
        (HS256 ''attacker-key''
           \<lparr>userId = None, username = None, email = None, role = None, sub = None,
            cognito_username = None, cognito_groups = Some [''Admin''], iat_claim = None,
            exp_claim = None\<rparr>))
   = Inr \<lparr>vu_userId = None, vu_username = None, vu_email = None, vu_groups = [''Admin'']\<rparr>"
  by (simp add: jwt_verify_def verifyToken_def jwt_decode_def JWT_SECRET_def js_or_def
      truthy_def)

text \<open>
  C2, amended. \<open>verifyToken\<close> only decodes: it fails with "Invalid token format"
  exactly when the token does not decode and otherwise with nothing but "Token has
  expired"; its result does not depend on the signature, and it has no subject check.
  The signature and the subject are checked by the \<open>authenticateToken\<close> guard: it lets
  a token through exactly when the token is the presented payload signed with the
  process key, is not expired and carries a non-empty username; it answers every
  failure of \<open>jwt.verify\<close> (malformed, wrong signature, expired) with the one
  403 "Invalid token", and a verified token without username with
  401 "Username missing in token".
\<close>

theorem verify_checks:
  "(verifyToken ms t = Inl ''Invalid token format'' \<longleftrightarrow> jwt_decode t = None)
   \<and> (verifyToken ms t = Inl err \<longrightarrow>
          err = ''Invalid token format'' \<or> err = ''Token has expired'')
   \<and> verifyToken ms (Jwt p sg) = verifyToken ms (Jwt p sg')
   \<and> (authenticateToken env ms (Some t) = Next u \<longleftrightarrow>
          t = jwt_sign u (JWT_SECRET env)
          \<and> (\<forall>e. exp_claim u = Some e \<longrightarrow> now_seconds ms < e)
          \<and> truthy (username u))
   \<and> ((\<exists>e. jwt_verify t (JWT_SECRET env) ms = Inl e) \<longrightarrow>
          authenticateToken env ms (Some t) = Respond 403 (ErrorBody ''Invalid token''))
   \<and> (jwt_verify t (JWT_SECRET env) ms = Inr u \<and> \<not> truthy (username u) \<longrightarrow>
          authenticateToken env ms (Some t)
            = Respond 401 (ErrorBody ''Username missing in token''))"
proof -
  have malformed: "verifyToken ms t = Inl ''Invalid token format'' \<longleftrightarrow> jwt_decode t = None"
    by (cases "jwt_decode t") (simp_all add: verifyToken_decoded, simp add: verifyToken_def)
  have errors: "verifyToken ms t = Inl err \<longrightarrow>
          err = ''Invalid token format'' \<or> err = ''Token has expired''"
    by (cases "jwt_decode t") (auto simp: verifyToken_def Let_def split: if_splits)
  have unsigned: "verifyToken ms (Jwt p sg) = verifyToken ms (Jwt p sg')"
    by (simp add: verifyToken_def jwt_decode_def)
  have accept: "authenticateToken env ms (Some t) = Next u \<longleftrightarrow>
          t = jwt_sign u (JWT_SECRET env)
          \<and> (\<forall>e. exp_claim u = Some e \<longrightarrow> now_seconds ms < e)
          \<and> truthy (username u)"
  proof (cases "jwt_verify t (JWT_SECRET env) ms")
    case (Inl e)
    then have "\<not> (t = jwt_sign u (JWT_SECRET env)
          \<and> (\<forall>e. exp_claim u = Some e \<longrightarrow> now_seconds ms < e))"
      using jwt_verify_Inr [of t "JWT_SECRET env" ms u] by simp
    with Inl show ?thesis by (auto simp: authenticateToken_def)
  next
    case (Inr v)
    then have v: "t = jwt_sign v (JWT_SECRET env)"
      and "\<forall>e. exp_claim v = Some e \<longrightarrow> now_seconds ms < e"
      using jwt_verify_Inr [of t "JWT_SECRET env" ms v] by simp_all
    moreover have "jwt_sign u (JWT_SECRET env) = jwt_sign v (JWT_SECRET env) \<longleftrightarrow> u = v"
      by (auto simp: jwt_sign_def)
    ultimately show ?thesis using Inr by (auto simp: authenticateToken_def)
  qed
  have invalid: "(\<exists>e. jwt_verify t (JWT_SECRET env) ms = Inl e) \<longrightarrow>
          authenticateToken env ms (Some t) = Respond 403 (ErrorBody ''Invalid token'')"
    by (auto simp: authenticateToken_def)
  have nosubject: "jwt_verify t (JWT_SECRET env) ms = Inr u \<and> \<not> truthy (username u) \<longrightarrow>
          authenticateToken env ms (Some t)
            = Respond 401 (ErrorBody ''Username missing in token'')"
    by (auto simp: authenticateToken_def)
  from malformed errors unsigned accept invalid nosubject show ?thesis by blast
qed

theorem verify_checks_witness:
  "verifyToken 0 (NotAJwt ''not.a.token'') = Inl ''Invalid token format''
   \<and> authenticateToken None 0 (Some (NotAJwt ''not.a.token''))
       = Respond 403 (ErrorBody ''Invalid token'')
   \<and> authenticateToken None 0
         (Some (jwt_sign \<lparr>userId = Some ''alice'', username = Some ''alice'', email = None,
                  role = None, sub = None, cognito_username = None, cognito_groups = None,
                  iat_claim = Some 0, exp_claim = Some 60\<rparr> ''your-secret-key''))
       = Next \<lparr>userId = Some ''alice'', username = Some ''alice'', email = None,
                  role = None, sub = None, cognito_username = None, cognito_groups = None,
                  iat_claim = Some 0, exp_claim = Some 60\<rparr>
   \<and> authenticateToken None 0
         (Some (jwt_sign \<lparr>userId = Some ''alice'', username = None, email = None,
                  role = None, sub = None, cognito_username = None, cognito_groups = None,
                  iat_claim = Some 0, exp_claim = Some 60\<rparr> ''your-secret-key''))
       = Respond 401 (ErrorBody ''Username missing in token'')"
proof -
  let ?bad = "NotAJwt ''not.a.token''"
  let ?alice = "\<lparr>userId = Some ''alice'', username = Some ''alice'', email = None,
                  role = None, sub = None, cognito_username = None, cognito_groups = None,
                  iat_claim = Some 0, exp_claim = Some (60::int)\<rparr>"
  let ?anon = "\<lparr>userId = Some ''alice'', username = None, email = None,
                  role = None, sub = None, cognito_username = None, cognito_groups = None,
                  iat_claim = Some 0, exp_claim = Some (60::int)\<rparr>"
  have key: "JWT_SECRET None = ''your-secret-key''"
    by (simp add: JWT_SECRET_def js_or_def truthy_def)
  have "jwt_decode ?bad = None"
    by (simp add: jwt_decode_def)
  then have one: "verifyToken 0 ?bad = Inl ''Invalid token format''"
    using verify_checks [where ms = 0 and t = ?bad] by blast
  have "\<exists>e. jwt_verify ?bad (JWT_SECRET None) 0 = Inl e"
    by (simp add: jwt_verify_def)
  then have two: "authenticateToken None 0 (Some ?bad) = Respond 403 (ErrorBody ''Invalid token'')"
    using verify_checks [where ms = 0 and t = ?bad and env = None] by blast
  have "(\<forall>e. exp_claim ?alice = Some e \<longrightarrow> now_seconds 0 < e) \<and> truthy (username ?alice)"
    by (simp add: now_seconds_def truthy_def)
  then have three: "authenticateToken None 0 (Some (jwt_sign ?alice ''your-secret-key'')) = Next ?alice"
    using verify_checks [where ms = 0 and t = "jwt_sign ?alice ''your-secret-key''"
        and env = None and u = ?alice]
    unfolding key by blast
  have "jwt_verify (jwt_sign ?anon ''your-secret-key'') (JWT_SECRET None) 0 = Inr ?anon
        \<and> \<not> truthy (username ?anon)"
    by (simp add: jwt_verify_def jwt_sign_def key now_seconds_def truthy_def)
  then have four: "authenticateToken None 0 (Some (jwt_sign ?anon ''your-secret-key''))
       = Respond 401 (ErrorBody ''Username missing in token'')"
    using verify_checks [where ms = 0 and t = "jwt_sign ?anon ''your-secret-key''"
        and env = None and u = ?anon]
    by blast
  from one two three four show ?thesis by simp
qed

section \<open>Issued tokens carry no group claim\<close>

lemma generateJWT_payload:
  "jwt_decode (generateJWT ms env ud) =
     Some \<lparr>userId = ud_userId ud, username = ud_username ud, email = ud_email ud,
           role = Some (case ud_role ud of None \<Rightarrow> ''user'' | Some r \<Rightarrow> r),
           sub = None, cognito_username = None, cognito_groups = None,
           iat_claim = Some (now_seconds ms),
           exp_claim = Some (now_seconds ms + 24 * 60 * 60)\<rparr>"
  by (simp add: generateJWT_def jwt_decode_sign)

lemma authenticateToken_issued:
  "authenticateToken env' ms' (Some (generateJWT ms env ud)) = Next user \<Longrightarrow>
     jwt_decode (generateJWT ms env ud) = Some user"
  by (auto simp: authenticateToken_def jwt_verify_def generateJWT_def jwt_sign_def jwt_decode_def
      split: sum.splits if_splits option.splits)

text \<open>
  C5. Whatever object is passed to \<open>generateJWT\<close>, the claims of the token it returns
  are \<open>userId\<close>, \<open>username\<close>, \<open>email\<close>, \<open>role\<close>, \<open>iat\<close> and \<open>exp\<close> and nothing
  else: a \<open>'cognito:groups'\<close> property of the argument is dropped. Hence every request
  that \<open>authenticateToken\<close> lets through with such a token is denied by
  \<open>authorizeGroup\<close>, for every required group.
\<close>

theorem issued_token_has_no_groups:
  "jwt_decode (generateJWT ms env ud) =
     Some \<lparr>userId = ud_userId ud, username = ud_username ud, email = ud_email ud,
           role = Some (case ud_role ud of None \<Rightarrow> ''user'' | Some r \<Rightarrow> r),
           sub = None, cognito_username = None, cognito_groups = None,
           iat_claim = Some (now_seconds ms),
           exp_claim = Some (now_seconds ms + 24 * 60 * 60)\<rparr>
   \<and> (authenticateToken env' ms' (Some (generateJWT ms env ud)) = Next user \<longrightarrow>
          authorizeGroup G user
            = Respond 403 (ErrorBody ''Access denied: insufficient group privileges''))"
proof -
  have "authorizeGroup G user
            = Respond 403 (ErrorBody ''Access denied: insufficient group privileges'')"
    if "authenticateToken env' ms' (Some (generateJWT ms env ud)) = Next user"
  proof -
    from that have "jwt_decode (generateJWT ms env ud) = Some user"
      by (rule authenticateToken_issued)
    then have "cognito_groups user = None"
      by (auto simp: generateJWT_payload)
    then show ?thesis by (simp add: authorizeGroup_def)
  qed
  then show ?thesis by (simp add: generateJWT_payload)
qed

theorem issued_token_has_no_groups_witness:
  "authenticateToken None 2000
     (Some (generateJWT 1000 None
        \<lparr>ud_userId = Some ''admin'', ud_username = Some ''admin'', ud_email = Some [],
         ud_role = Some ''user'', ud_cognito_groups = Some [''Admin'']\<rparr>))
   = Next \<lparr>userId = Some ''admin'', username = Some ''admin'', email = Some [],
            role = Some ''user'', sub = None, cognito_username = None, cognito_groups = None,
            iat_claim = Some 1, exp_claim = Some 86401\<rparr>
   \<and> authorizeGroup ''Admin''
       \<lparr>userId = Some ''admin'', username = Some ''admin'', email = Some [],
            role = Some ''user'', sub = None, cognito_username = None, cognito_groups = None,
            iat_claim = Some 1, exp_claim = Some 86401\<rparr>
     = Respond 403 (ErrorBody ''Access denied: insufficient group privileges'')"
proof -
  let ?ud = "\<lparr>ud_userId = Some ''admin'', ud_username = Some ''admin'', ud_email = Some [],
         ud_role = Some ''user'', ud_cognito_groups = Some [''Admin'']\<rparr>"
  let ?user = "\<lparr>userId = Some ''admin'', username = Some ''admin'', email = Some [],
            role = Some ''user'', sub = None, cognito_username = None, cognito_groups = None,
            iat_claim = Some 1, exp_claim = Some (86401::int)\<rparr>"
  have pass: "authenticateToken None 2000 (Some (generateJWT 1000 None ?ud)) = Next ?user"
    by (simp add: authenticateToken_def jwt_verify_def generateJWT_def jwt_sign_def
        now_seconds_def truthy_def)
  then have "authorizeGroup ''Admin'' ?user
     = Respond 403 (ErrorBody ''Access denied: insufficient group privileges'')"
    using issued_token_has_no_groups [where ms = 1000 and env = None and ud = ?ud
        and env' = None and ms' = 2000 and user = ?user and G = "''Admin''"]
    by blast
  with pass show ?thesis by simp
qed

section \<open>Properties of the login flow\<close>

lemma authenticateUser_throws:
  "send (AdminInitiateAuth uname password) s = (Throws name message, s') \<Longrightarrow>
     authenticateUser send clock_ms uname password s =
       (Inl (if name = ''NotAuthorizedException'' then ''Invalid username or password''
             else if name = ''UserNotConfirmedException'' then ''User account not confirmed''
             else if name = ''UserNotFoundException'' then ''User not found''
             else ''Authentication failed: '' @ message), s')"
  by (simp add: authenticateUser_def)

lemma authenticateUser_challenge:
  "send (AdminInitiateAuth uname password) s = (Returns result, s') \<Longrightarrow>
   AuthenticationResult result = None \<Longrightarrow> ChallengeName result = Some kind \<Longrightarrow>
   kind \<noteq> [] \<Longrightarrow>
     authenticateUser send clock_ms uname password s =
       (Inr (object
          [(''success'', Some (JBool False)),
           (''challenge'', Some (JStr kind)),
           (''session'', map_option JStr (Session result)),
           (''parameters'', map_option JPairs (ChallengeParameters result))]), s')"
  by (simp add: authenticateUser_def truthy_def)

text \<open>\<open>initiateAuthWithMFA\<close> returns the challenge kind and the session, and no token.\<close>

lemma initiateAuthWithMFA_challenge:
  "send (AdminInitiateAuth uname password) s = (Returns result, s') \<Longrightarrow>
   ChallengeName result = Some ''SOFTWARE_TOKEN_MFA'' \<Longrightarrow>
     initiateAuthWithMFA send uname password s =
       (Inr (object
          [(''success'', Some (JBool True)),
           (''challengeName'', Some (JStr ''SOFTWARE_TOKEN_MFA'')),
           (''session'', map_option JStr (Session result)),
           (''message'', Some (JStr ''MFA code required''))]), s')"
  by (simp add: initiateAuthWithMFA_def)

text \<open>Both login routes pass the message of a thrown error on, with status 500.\<close>

lemma login_relays_error:
  assumes "cred_username req = Some u" and "u \<noteq> []"
    and "cred_password req = Some p" and "p \<noteq> []"
    and "authenticateUser send clock_ms u p s = (Inl message, s')"
  shows "post_auth_login send env clock_ms req s = (Resp 500 [(''error'', JStr message)], s')"
    and "post_auth_login_cloud send env clock_ms req s = (Resp 500 [(''error'', JStr message)], s')"
  using assms by (simp_all add: post_auth_login_def post_auth_login_cloud_def truthy_def)

text \<open>
  The login route of app-cloud.js answers a challenge from the provider with the
  challenge kind and the provider's session, and issues no token.
\<close>

lemma post_auth_login_cloud_challenge:
  "fst (post_auth_login_cloud pool_send None 0
          \<lparr>cred_username = Some ''bob'', cred_password = Some ''bob-pw''\<rparr> example_pool)
   = Resp 200
       [(''challenge'', JStr ''SOFTWARE_TOKEN_MFA''),
        (''session'', JStr ''session-of-bob''),
        (''parameters'', JPairs [(''USER_ID_FOR_SRP'', ''bob'')])]"
  by (simp add: post_auth_login_cloud_def authenticateUser_def pool_send_def example_pool_def
      truthy_def no_response_def js_truthy_def get_prop_def)

text \<open>
  C7. The login route of the application with MFA support, at a concrete input: user
  \<open>bob\<close> has software-token MFA enabled and logs in with the right password. The
  provider answers with the \<open>SOFTWARE_TOKEN_MFA\<close> challenge and a session, and the route
  answers 401 "Authentication failed": no token, and no challenge kind or session either.
\<close>

theorem mfa_login_answers_401:
  "fst (post_auth_login pool_send None 0
          \<lparr>cred_username = Some ''bob'', cred_password = Some ''bob-pw''\<rparr> example_pool)
   = Resp 401 [(''error'', JStr ''Authentication failed'')]"
  by (simp add: post_auth_login_def authenticateUser_def pool_send_def example_pool_def truthy_def
      no_response_def js_truthy_def get_prop_def)

theorem mfa_login_answers_401_witness:
  "fst (post_auth_login pool_send None 0
          \<lparr>cred_username = Some ''bob'', cred_password = Some ''bob-pw''\<rparr> example_pool)
   \<noteq> fst (post_auth_login_cloud pool_send None 0
          \<lparr>cred_username = Some ''bob'', cred_password = Some ''bob-pw''\<rparr> example_pool)"
  unfolding mfa_login_answers_401 post_auth_login_cloud_challenge by simp

text \<open>
  C4, as stated, fails: on a pool that reports an unknown username with
  \<open>UserNotFoundException\<close>, the rejected login of an unknown user fails with "User not
  found" and the rejected login of a known user with a wrong password fails with
  "Invalid username or password".
\<close>

theorem rejected_logins_differ:
  "fst (authenticateUser pool_send 0 ''mallory'' ''guess'' example_pool) = Inl ''User not found''
   \<and> fst (authenticateUser pool_send 0 ''alice'' ''guess'' example_pool)
       = Inl ''Invalid username or password''"
  by (simp add: authenticateUser_def pool_send_def example_pool_def)

text \<open>
  C4, amended. The error of a rejected login is determined by the class of the
  provider's exception alone. Two rejected logins that the provider reports with the
  same one of \<open>NotAuthorizedException\<close>, \<open>UserNotFoundException\<close> and
  \<open>UserNotConfirmedException\<close> fail with the same error, whatever the usernames,
  passwords and provider messages: "Invalid username or password" for the first
  class, "User not found" for the second, "User account not confirmed" for the third.
\<close>

theorem rejected_login_error_by_exception_class:
  "send1 (AdminInitiateAuth u1 p1) s1 = (Throws name m1, t1) \<Longrightarrow>
   send2 (AdminInitiateAuth u2 p2) s2 = (Throws name m2, t2) \<Longrightarrow>
   name \<in> {''NotAuthorizedException'', ''UserNotFoundException'', ''UserNotConfirmedException''} \<Longrightarrow>
     fst (authenticateUser send1 c1 u1 p1 s1) = fst (authenticateUser send2 c2 u2 p2 s2)
     \<and> (name = ''NotAuthorizedException'' \<longrightarrow>
            fst (authenticateUser send1 c1 u1 p1 s1) = Inl ''Invalid username or password'')
     \<and> (name = ''UserNotFoundException'' \<longrightarrow>
            fst (authenticateUser send1 c1 u1 p1 s1) = Inl ''User not found'')
     \<and> (name = ''UserNotConfirmedException'' \<longrightarrow>
            fst (authenticateUser send1 c1 u1 p1 s1) = Inl ''User account not confirmed'')"
  by (auto simp: authenticateUser_throws)

theorem rejected_login_error_by_exception_class_witness:
  "fst (authenticateUser pool_send 0 ''alice'' ''guess'' example_pool)
     = fst (authenticateUser pool_send 5000 ''bob'' ''other'' example_pool)
   \<and> fst (authenticateUser pool_send 0 ''alice'' ''guess'' example_pool)
     = Inl ''Invalid username or password''"
proof -
  have a: "pool_send (AdminInitiateAuth ''alice'' ''guess'') example_pool
          = (Throws ''NotAuthorizedException'' ''Incorrect username or password.'', example_pool)"
    by (simp add: pool_send_def example_pool_def)
  have b: "pool_send (AdminInitiateAuth ''bob'' ''other'') example_pool
          = (Throws ''NotAuthorizedException'' ''Incorrect username or password.'', example_pool)"
    by (simp add: pool_send_def example_pool_def)
  have c: "''NotAuthorizedException''
        \<in> {''NotAuthorizedException'', ''UserNotFoundException'', ''UserNotConfirmedException''}"
    by simp
  note w = rejected_login_error_by_exception_class
      [where ?send1.0 = pool_send and ?send2.0 = pool_send and ?c1.0 = 0 and ?c2.0 = 5000, OF a b c]
  from w have "fst (authenticateUser pool_send 0 ''alice'' ''guess'' example_pool)
     = fst (authenticateUser pool_send 5000 ''bob'' ''other'' example_pool)"
    by (rule conjunct1)
  moreover from w have "fst (authenticateUser pool_send 0 ''alice'' ''guess'' example_pool)
     = Inl ''Invalid username or password''"
    by blast
  ultimately show ?thesis by (rule conjI)
qed

section \<open>Properties of MFA enrollment\<close>

text \<open>
  C8. When \<open>verifyMFA\<close> is called with a setup secret and the provider rejects the code
  with \<open>CodeMismatchException\<close>, the result is the failure "Invalid MFA code", the
  verification command is the only command sent (the command that enables the MFA
  preference is not), and the pool is left in the state in which the provider's
  rejection left it.
\<close>

theorem verifyMFA_mismatch_sends_no_enable:
  "secret \<noteq> [] \<Longrightarrow>
   send (VerifySoftwareToken code secret) s = (Throws ''CodeMismatchException'' message, s') \<Longrightarrow>
     verifyMFA send uname code (Some secret) s = (Failure ''Invalid MFA code'', s')
     \<and> verifyMFA (logged send) uname code (Some secret) (log, s)
         = (Failure ''Invalid MFA code'', (log @ [VerifySoftwareToken code secret], s'))"
  by (simp add: verifyMFA_def send_new_def CognitoCommands_def logged_def truthy_def)

text \<open>
  For every provider: if the command that enables the MFA preference is among the
  commands \<open>verifyMFA\<close> sent, then a secret was given and the provider accepted the
  verification of the code against it.
\<close>

lemma verifyMFA_enable_only_after_verified:
  "AdminSetUserMFAPreference uname True True
     \<in> set (fst (snd (verifyMFA (logged send) uname code secret ([], s)))) \<Longrightarrow>
   truthy secret \<and> (\<exists>r s1. send (VerifySoftwareToken code (the secret)) s = (Returns r, s1))"
  by (auto simp: verifyMFA_def send_new_def CognitoCommands_def logged_def
      split: if_splits prod.splits reply.splits)

theorem verifyMFA_mismatch_sends_no_enable_witness:
  "verifyMFA pool_send ''alice'' ''000000'' (Some ''ALICESECRET'') example_pool
     = (Failure ''Invalid MFA code'', example_pool)
   \<and> verifyMFA (logged pool_send) ''alice'' ''000000'' (Some ''ALICESECRET'') ([], example_pool)
     = (Failure ''Invalid MFA code'',
        ([VerifySoftwareToken ''000000'' ''ALICESECRET''], example_pool))
   \<and> ''alice'' \<notin> set (pool_mfa example_pool)"
proof -
  have ne: "''ALICESECRET'' \<noteq> []" by simp
  have rejected: "pool_send (VerifySoftwareToken ''000000'' ''ALICESECRET'') example_pool
          = (Throws ''CodeMismatchException'' ''Code mismatch'', example_pool)"
    by (simp add: pool_send_def example_pool_def)
  have "''alice'' \<notin> set (pool_mfa example_pool)"
    by (simp add: example_pool_def)
  with verifyMFA_mismatch_sends_no_enable
      [where send = pool_send and uname = "''alice''" and log = "[]", OF ne rejected]
  show ?thesis by simp
qed

section \<open>Role reassignment\<close>

text \<open>
  For every provider and every argument, \<open>updateUserRole\<close> returns the failure of
  \<open>listGroupsForUser\<close>, whose command class aws-config does not export, and leaves
  the provider as it found it: no command is sent.
\<close>

lemma listGroupsForUser_fails:
  "listGroupsForUser send uname s
     = (Failure ''CognitoCommands.AdminListGroupsForUserCommand is not a constructor'', s)"
  by (simp add: listGroupsForUser_def send_new_def CognitoCommands_def)

lemma updateUserRole_never_succeeds:
  "updateUserRole send uname newRole status s
     = (Failure ''CognitoCommands.AdminListGroupsForUserCommand is not a constructor'', s)"
  by (simp add: updateUserRole_def listGroupsForUser_fails)

lemma updateUserRole_sends_nothing:
  "snd (updateUserRole (logged send) uname newRole status (log, s)) = (log, s)"
  by (simp add: updateUserRole_never_succeeds)

end
